theory Spec2Isabelle
  imports Main
begin

section \<open>Data model of VaultService.ts\<close>

text \<open>
  The service of \<^verbatim>\<open>src/packages/services/src/Domain/Vaults/VaultService.ts\<close> owns one
  piece of mutable state, \<^verbatim>\<open>lockMap\<close>, and drives collaborators (the item manager, the
  key store behind \<^verbatim>\<open>encryption.keys\<close>, the encryption provider, the sync service and the
  use-case objects) whose code is not part of the sources at hand. The collaborators are
  therefore parameters of the model: a record of functions over an abstract world
  \<open>'w\<close> that stands for everything they hold.
\<close>

type_synonym Uuid = string
type_synonym KeySystemIdentifier = string

text \<open>The enums and key objects are imported from \<^verbatim>\<open>@standardnotes/models\<close>; only their
  shape matters here. A key object is always truthy in JavaScript, so a lookup of a key is
  an \<open>option\<close> and \<^verbatim>\<open>!rootKey\<close> is \<open>None\<close>.\<close>

datatype KeySystemRootKeyStorageMode = Synced | Local | Ephemeral

datatype KeySystemRootKeyPasswordType = Randomized | UserInputted

datatype KeySystemRootKeyParams = KeySystemRootKeyParams KeySystemIdentifier string

datatype KeySystemRootKey = KeySystemRootKey KeySystemIdentifier string

datatype KeySystemItemsKey = KeySystemItemsKey KeySystemIdentifier string

datatype LockState = locked | unlocked

datatype VaultServiceEvent = VaultLocked | VaultUnlocked | VaultRootKeyRotated

text \<open>\<^verbatim>\<open>DecryptedItemInterface\<close>: the fields the service reads. \<^verbatim>\<open>key_system_identifier\<close>
  is an optional string.\<close>

record DecryptedItem =
  uuid :: Uuid
  key_system_identifier :: "KeySystemIdentifier option"

text \<open>\<^verbatim>\<open>VaultListingInterface\<close> extends the decrypted item. \<open>sharing\<close> holds the
  \<^verbatim>\<open>sharedVaultUuid\<close> of a shared vault listing.\<close>

record VaultListing = DecryptedItem +
  systemIdentifier :: KeySystemIdentifier
  name :: string
  description :: "string option"
  keyStorageMode :: KeySystemRootKeyStorageMode
  keyPasswordType :: KeySystemRootKeyPasswordType
  rootKeyParams :: KeySystemRootKeyParams
  sharing :: "Uuid option"

text \<open>Modelled from the spec: \<^verbatim>\<open>isSharedVaultListing\<close> is a method of the vault listing
  class, which is not in the sources; the spec has the optional sharing metadata
  (\<^verbatim>\<open>sharedVaultUuid\<close>) distinguish a shared vault from a personal one.\<close>

definition isSharedVaultListing :: "VaultListing \<Rightarrow> bool" where
  "isSharedVaultListing v = (sharing v \<noteq> None)"

text \<open>\<^verbatim>\<open>ChangeVaultOptionsDTO\<close>: the service reads \<^verbatim>\<open>dto.vault\<close> and tests
  \<^verbatim>\<open>dto.newPasswordType\<close> (an object or undefined) for truthiness.\<close>

record ChangeVaultOptionsDTO =
  vault :: VaultListing
  newPasswordType :: "(KeySystemRootKeyPasswordType \<times> string option) option"
  newStorageMode :: "KeySystemRootKeyStorageMode option"

text \<open>\<open>Error msg\<close> is a \<^verbatim>\<open>throw new Error(msg)\<close> of VaultService.ts itself;
  \<open>Rejected r\<close> is an exception or a rejected promise \<open>r\<close> coming out of a
  collaborator, which the service never catches.\<close>

type_synonym rejection = string

datatype error = Error string | Rejected rejection

datatype ClientDisplayableError = ClientDisplayableError string

text \<open>The collaborator calls that act on the world, as a trace entry each.\<close>

datatype call =
    Call_clearMemoryOfKeysRelatedToVault VaultListing
  | Call_intakeNonPersistentKeySystemRootKey KeySystemRootKey KeySystemRootKeyStorageMode
  | Call_undoIntakeNonPersistentKeySystemRootKey KeySystemIdentifier
  | Call_decryptErroredPayloads
  | Call_sync
  | Call_AddItemsToVaultUseCase VaultListing "DecryptedItem list"
  | Call_RemoveItemFromVault DecryptedItem
  | Call_DeleteVaultUseCase VaultListing
  | Call_RotateVaultRootKeyUseCase VaultListing "Uuid option" "string option"
  | Call_ChangeVaultKeyOptionsUseCase ChangeVaultOptionsDTO

text \<open>The collaborators. Reads are functions of the world; synchronous key-store updates
  are world transformers; awaited calls return the new world together with either their
  result or their rejection. \<^verbatim>\<open>findSureItem\<close> throws when the item is not there.\<close>

record 'w collaborators =
  items_getItems_VaultListing :: "'w \<Rightarrow> VaultListing list"
  items_findSureItem :: "'w \<Rightarrow> Uuid \<Rightarrow> rejection + DecryptedItem"
  localeCompare :: "string \<Rightarrow> string \<Rightarrow> int"
  keys_getPrimaryKeySystemRootKey :: "'w \<Rightarrow> KeySystemIdentifier \<Rightarrow> KeySystemRootKey option"
  keys_getPrimaryKeySystemItemsKey :: "'w \<Rightarrow> KeySystemIdentifier \<Rightarrow> KeySystemItemsKey option"
  keys_clearMemoryOfKeysRelatedToVault :: "VaultListing \<Rightarrow> 'w \<Rightarrow> 'w"
  keys_intakeNonPersistentKeySystemRootKey ::
    "KeySystemRootKey \<Rightarrow> KeySystemRootKeyStorageMode \<Rightarrow> 'w \<Rightarrow> 'w"
  keys_undoIntakeNonPersistentKeySystemRootKey :: "KeySystemIdentifier \<Rightarrow> 'w \<Rightarrow> 'w"
  encryption_deriveUserInputtedKeySystemRootKey ::
    "KeySystemRootKeyParams \<Rightarrow> string \<Rightarrow> KeySystemRootKey"
  encryption_decryptErroredPayloads :: "'w \<Rightarrow> (rejection + unit) \<times> 'w"
  sync_sync :: "'w \<Rightarrow> (rejection + unit) \<times> 'w"
  AddItemsToVaultUseCase_execute ::
    "VaultListing \<Rightarrow> DecryptedItem list \<Rightarrow> 'w \<Rightarrow> (rejection + unit) \<times> 'w"
  RemoveItemFromVault_execute :: "DecryptedItem \<Rightarrow> 'w \<Rightarrow> (rejection + unit) \<times> 'w"
  DeleteVaultUseCase_execute ::
    "VaultListing \<Rightarrow> 'w \<Rightarrow> (rejection + ClientDisplayableError option) \<times> 'w"
  RotateVaultRootKeyUseCase_execute ::
    "VaultListing \<Rightarrow> Uuid option \<Rightarrow> string option \<Rightarrow> 'w \<Rightarrow> (rejection + unit) \<times> 'w"
  ChangeVaultKeyOptionsUseCase_execute ::
    "ChangeVaultOptionsDTO \<Rightarrow> 'w \<Rightarrow> (rejection + unit) \<times> 'w"

text \<open>The state a method runs in: the service's own \<^verbatim>\<open>lockMap\<close> (a
  \<^verbatim>\<open>Map<uuid, boolean>\<close>), the world of the collaborators, the events handed to
  \<^verbatim>\<open>notifyEvent\<close> / \<^verbatim>\<open>notifyEventSync\<close>, and the trace of collaborator calls.\<close>

record 'w VaultService =
  lockMap :: "Uuid \<rightharpoonup> bool"
  world :: 'w
  events :: "(VaultServiceEvent \<times> VaultListing) list"
  calls :: "call list"

definition notifyEvent ::
  "VaultServiceEvent \<Rightarrow> VaultListing \<Rightarrow> 'w VaultService \<Rightarrow> 'w VaultService" where
  "notifyEvent ev v s = s\<lparr>events := events s @ [(ev, v)]\<rparr>"

definition perform :: "call \<Rightarrow> ('w \<Rightarrow> 'w) \<Rightarrow> 'w VaultService \<Rightarrow> 'w VaultService" where
  "perform c f s = s\<lparr>world := f (world s), calls := calls s @ [c]\<rparr>"

definition propagate :: "rejection + 'a \<Rightarrow> error + 'a" where
  "propagate r = (case r of Inl e \<Rightarrow> Inl (Rejected e) | Inr x \<Rightarrow> Inr x)"

definition invoke ::
  "call \<Rightarrow> ('w \<Rightarrow> (rejection + 'a) \<times> 'w) \<Rightarrow> 'w VaultService
     \<Rightarrow> (error + 'a) \<times> 'w VaultService" where
  "invoke c f s =
     (case f (world s) of
        (r, w') \<Rightarrow> (propagate r, s\<lparr>world := w', calls := calls s @ [c]\<rparr>))"

section \<open>Lock state\<close>

text \<open>\<^verbatim>\<open>computeVaultLockState\<close> (lines 279-291).\<close>

definition computeVaultLockState ::
  "'w collaborators \<Rightarrow> 'w \<Rightarrow> VaultListing \<Rightarrow> LockState" where
  "computeVaultLockState env w v =
     (case keys_getPrimaryKeySystemRootKey env w (systemIdentifier v) of
        None \<Rightarrow> locked
      | Some rootKey \<Rightarrow>
          (case keys_getPrimaryKeySystemItemsKey env w (systemIdentifier v) of
             None \<Rightarrow> locked
           | Some itemsKey \<Rightarrow> unlocked))"

text \<open>\<^verbatim>\<open>isVaultLocked\<close> (lines 217-219): \<^verbatim>\<open>this.lockMap.get(vault.uuid) === true\<close>.\<close>

definition isVaultLocked :: "'w VaultService \<Rightarrow> VaultListing \<Rightarrow> bool" where
  "isVaultLocked s v = (lockMap s (uuid v) = Some True)"

section \<open>Vault listings\<close>

text \<open>\<^verbatim>\<open>Array.prototype.sort\<close> with a comparator is a stable sort: an element moves in
  front of another only when the comparator is negative.\<close>

fun insert_sorted :: "('a \<Rightarrow> 'a \<Rightarrow> int) \<Rightarrow> 'a \<Rightarrow> 'a list \<Rightarrow> 'a list" where
  "insert_sorted cmp x [] = [x]"
| "insert_sorted cmp x (y # ys) =
     (if cmp y x \<le> 0 then y # insert_sorted cmp x ys else x # y # ys)"

definition sort_array :: "('a \<Rightarrow> 'a \<Rightarrow> int) \<Rightarrow> 'a list \<Rightarrow> 'a list" where
  "sort_array cmp xs = foldl (\<lambda>acc x. insert_sorted cmp x acc) [] xs"

text \<open>\<^verbatim>\<open>getVaults\<close> (lines 51-55).\<close>

definition getVaults :: "'w collaborators \<Rightarrow> 'w \<Rightarrow> VaultListing list" where
  "getVaults env w =
     sort_array (\<lambda>a b. localeCompare env (name a) (name b)) (items_getItems_VaultListing env w)"

text \<open>\<^verbatim>\<open>getLockedvaults\<close> (lines 57-60).\<close>

definition getLockedvaults :: "'w collaborators \<Rightarrow> 'w VaultService \<Rightarrow> VaultListing list" where
  "getLockedvaults env s = filter (\<lambda>v. isVaultLocked s v) (getVaults env (world s))"

text \<open>Modelled from the spec: \<^verbatim>\<open>GetVaultUseCase\<close> (\<^verbatim>\<open>./UseCase/GetVault\<close>) is not in the
  sources. The spec: it "returns the listing whose key-system identifier matches, or
  absent if none"; the use case is constructed over the item manager alone.\<close>

definition GetVaultUseCase_execute ::
  "'w collaborators \<Rightarrow> 'w \<Rightarrow> KeySystemIdentifier \<Rightarrow> VaultListing option" where
  "GetVaultUseCase_execute env w keySystemIdentifier =
     find (\<lambda>listing. systemIdentifier listing = keySystemIdentifier)
       (items_getItems_VaultListing env w)"

text \<open>\<^verbatim>\<open>getVault\<close> (lines 62-65) and \<^verbatim>\<open>getSureVault\<close> (lines 67-74).\<close>

definition getVault :: "'w collaborators \<Rightarrow> 'w \<Rightarrow> KeySystemIdentifier \<Rightarrow> VaultListing option"
  where
  "getVault env w keySystemIdentifier = GetVaultUseCase_execute env w keySystemIdentifier"

definition getSureVault ::
  "'w collaborators \<Rightarrow> 'w \<Rightarrow> KeySystemIdentifier \<Rightarrow> error + VaultListing" where
  "getSureVault env w keySystemIdentifier =
     (case getVault env w keySystemIdentifier of
        None \<Rightarrow> Inl (Error ''Vault not found'')
      | Some v \<Rightarrow> Inr v)"

section \<open>Items and vaults\<close>

text \<open>\<^verbatim>\<open>isItemInVault\<close> (lines 192-194): \<^verbatim>\<open>item.key_system_identifier !== undefined\<close>.\<close>

definition isItemInVault :: "DecryptedItem \<Rightarrow> bool" where
  "isItemInVault item = (key_system_identifier item \<noteq> None)"

text \<open>\<^verbatim>\<open>getItemVault\<close> (lines 196-202). \<^verbatim>\<open>!item.key_system_identifier\<close> holds of
  \<^verbatim>\<open>undefined\<close> and of the empty string.\<close>

definition getItemVault :: "'w collaborators \<Rightarrow> 'w \<Rightarrow> DecryptedItem \<Rightarrow> VaultListing option"
  where
  "getItemVault env w item =
     (case key_system_identifier item of
        None \<Rightarrow> None
      | Some k \<Rightarrow> if k = [] then None else getVault env w k)"

text \<open>\<^verbatim>\<open>removeItemFromVault\<close> (lines 130-143).\<close>

definition removeItemFromVault ::
  "'w collaborators \<Rightarrow> DecryptedItem \<Rightarrow> 'w VaultService
     \<Rightarrow> (error + DecryptedItem) \<times> 'w VaultService" where
  "removeItemFromVault env item s =
     (case getItemVault env (world s) item of
        None \<Rightarrow> (Inl (Error ''Item does not belong to any vault''), s)
      | Some v \<Rightarrow>
          if isVaultLocked s v
          then (Inl (Error ''Attempting to remove item from locked vault''), s)
          else
            (case invoke (Call_RemoveItemFromVault item)
                    (RemoveItemFromVault_execute env item) s of
               (Inl e, s1) \<Rightarrow> (Inl e, s1)
             | (Inr _, s1) \<Rightarrow> (propagate (items_findSureItem env (world s1) (uuid item)), s1)))"

text \<open>\<^verbatim>\<open>addItemToVault\<close> (lines 115-128). The body after the optional removal is
  \<open>addItemToVault_useCase\<close>.\<close>

definition addItemToVault_useCase ::
  "'w collaborators \<Rightarrow> VaultListing \<Rightarrow> DecryptedItem \<Rightarrow> 'w VaultService
     \<Rightarrow> (error + DecryptedItem) \<times> 'w VaultService" where
  "addItemToVault_useCase env v item s =
     (case invoke (Call_AddItemsToVaultUseCase v [item])
             (AddItemsToVaultUseCase_execute env v [item]) s of
        (Inl e, s1) \<Rightarrow> (Inl e, s1)
      | (Inr _, s1) \<Rightarrow> (propagate (items_findSureItem env (world s1) (uuid item)), s1))"

definition addItemToVault ::
  "'w collaborators \<Rightarrow> VaultListing \<Rightarrow> DecryptedItem \<Rightarrow> 'w VaultService
     \<Rightarrow> (error + DecryptedItem) \<times> 'w VaultService" where
  "addItemToVault env v item s =
     (if isVaultLocked s v
      then (Inl (Error ''Attempting to add item to locked vault''), s)
      else
        (case getItemVault env (world s) item of
           Some _ \<Rightarrow>
             (case removeItemFromVault env item s of
                (Inl e, s1) \<Rightarrow> (Inl e, s1)
              | (Inr _, s1) \<Rightarrow> addItemToVault_useCase env v item s1)
         | None \<Rightarrow> addItemToVault_useCase env v item s))"

section \<open>Vault operations\<close>

text \<open>\<^verbatim>\<open>deleteVault\<close> (lines 145-159). The use case returns a
  \<^verbatim>\<open>ClientDisplayableError\<close> or nothing, and \<^verbatim>\<open>isClientDisplayableError\<close> tells which.\<close>

definition isClientDisplayableError :: "ClientDisplayableError option \<Rightarrow> bool" where
  "isClientDisplayableError x = (x \<noteq> None)"

definition deleteVault ::
  "'w collaborators \<Rightarrow> VaultListing \<Rightarrow> 'w VaultService \<Rightarrow> (error + bool) \<times> 'w VaultService"
  where
  "deleteVault env v s =
     (if isSharedVaultListing v
      then (Inl (Error ''Shared vault must be deleted through SharedVaultService''), s)
      else
        (case invoke (Call_DeleteVaultUseCase v) (DeleteVaultUseCase_execute env v) s of
           (Inl e, s1) \<Rightarrow> (Inl e, s1)
         | (Inr err, s1) \<Rightarrow>
             if isClientDisplayableError err then (Inr False, s1)
             else
               (case invoke Call_sync (sync_sync env) s1 of
                  (Inl e, s2) \<Rightarrow> (Inl e, s2)
                | (Inr _, s2) \<Rightarrow> (Inr True, s2))))"

text \<open>\<^verbatim>\<open>rotateVaultRootKey\<close> (lines 175-190).\<close>

definition rotateVaultRootKey ::
  "'w collaborators \<Rightarrow> VaultListing \<Rightarrow> 'w VaultService \<Rightarrow> (error + unit) \<times> 'w VaultService"
  where
  "rotateVaultRootKey env v s =
     (if computeVaultLockState env (world s) v = locked
      then (Inl (Error ''Cannot rotate root key of locked vault''), s)
      else
        (let sharedVaultUuid = (if isSharedVaultListing v then sharing v else None) in
         case invoke (Call_RotateVaultRootKeyUseCase v sharedVaultUuid None)
                (RotateVaultRootKeyUseCase_execute env v sharedVaultUuid None) s of
           (Inl e, s1) \<Rightarrow> (Inl e, s1)
         | (Inr _, s1) \<Rightarrow>
             invoke Call_sync (sync_sync env) (notifyEvent VaultRootKeyRotated v s1)))"

text \<open>\<^verbatim>\<open>changeVaultOptions\<close> (lines 204-215).\<close>

definition changeVaultOptions ::
  "'w collaborators \<Rightarrow> ChangeVaultOptionsDTO \<Rightarrow> 'w VaultService
     \<Rightarrow> (error + unit) \<times> 'w VaultService" where
  "changeVaultOptions env dto s =
     (if isVaultLocked s (vault dto)
      then (Inl (Error ''Attempting to change vault options on a locked vault''), s)
      else
        (case invoke (Call_ChangeVaultKeyOptionsUseCase dto)
                (ChangeVaultKeyOptionsUseCase_execute env dto) s of
           (Inl e, s1) \<Rightarrow> (Inl e, s1)
         | (Inr _, s1) \<Rightarrow>
             if newPasswordType dto \<noteq> None
             then (Inr (), notifyEvent VaultRootKeyRotated (vault dto) s1)
             else (Inr (), s1)))"

section \<open>Locking and unlocking\<close>

text \<open>\<^verbatim>\<open>lockNonPersistentVault\<close> (lines 221-230).\<close>

definition lockNonPersistentVault ::
  "'w collaborators \<Rightarrow> VaultListing \<Rightarrow> 'w VaultService \<Rightarrow> (error + unit) \<times> 'w VaultService"
  where
  "lockNonPersistentVault env v s =
     (if keyStorageMode v = Synced
      then (Inl (Error ''Vault uses synced root key and cannot be locked''), s)
      else
        (let s1 = perform (Call_clearMemoryOfKeysRelatedToVault v)
                    (keys_clearMemoryOfKeysRelatedToVault env v) s;
             s2 = s1\<lparr>lockMap := (lockMap s1)(uuid v \<mapsto> True)\<rparr>
         in (Inr (), notifyEvent VaultLocked v s2)))"



text \<open>\<^verbatim>\<open>recomputeAllVaultsLockingState\<close> (lines 261-277): the loop over the vaults, then
  the method. The body has no \<^verbatim>\<open>await\<close>, so a pass runs without interleaving.\<close>

fun recompute_loop ::
  "'w collaborators \<Rightarrow> VaultListing list \<Rightarrow> 'w VaultService \<Rightarrow> 'w VaultService" where
  "recompute_loop env [] s = s"
| "recompute_loop env (v # vaults) s =
     (let isLocked = (computeVaultLockState env (world s) v = locked) in
      if lockMap s (uuid v) \<noteq> Some isLocked
      then
        (let s1 = s\<lparr>lockMap := (lockMap s)(uuid v \<mapsto> isLocked)\<rparr> in
         recompute_loop env vaults
           (if isLocked then notifyEvent VaultLocked v s1 else notifyEvent VaultUnlocked v s1))
      else recompute_loop env vaults s)"

definition recomputeAllVaultsLockingState ::
  "'w collaborators \<Rightarrow> 'w VaultService \<Rightarrow> 'w VaultService" where
  "recomputeAllVaultsLockingState env s = recompute_loop env (getVaults env (world s)) s"

section \<open>An in-memory instance of the collaborators\<close>

text \<open>Modelled from the spec: the item index, the key store, the encryption provider, the
  synchronizer and the use cases are not in the sources. This instance follows the spec's
  description of each (section 4.2 and section 6) closely enough to run the service on
  explicit inputs; the general theorems below never depend on it.\<close>

record mem_world =
  vaultListings :: "VaultListing list"
  decryptedItems :: "DecryptedItem list"
  rootKeys :: "(KeySystemIdentifier \<times> KeySystemRootKey) list"
  itemsKeys :: "(KeySystemIdentifier \<times> KeySystemItemsKey) list"
  erroredItemsKeys :: "(KeySystemRootKey \<times> KeySystemIdentifier \<times> KeySystemItemsKey) list"
  syncs :: nat

text \<open>\<^verbatim>\<open>String.prototype.localeCompare\<close> in the default collation, for names made of
  ASCII letters: alphabetical order without regard to case, and between names that differ
  in case only, lower case before upper case. Characters other than letters are compared
  by their code, which the default collation does not promise; the names below are made of
  letters.\<close>

definition fold_case :: "char \<Rightarrow> nat" where
  "fold_case c = (if (65::nat) \<le> of_char c \<and> of_char c \<le> (90::nat)
                  then of_char c + 32 else of_char c)"

fun compare_letters :: "string \<Rightarrow> string \<Rightarrow> int" where
  "compare_letters [] [] = 0"
| "compare_letters [] (b # bs) = - 1"
| "compare_letters (a # as) [] = 1"
| "compare_letters (a # as) (b # bs) =
     (if fold_case a < fold_case b then - 1
      else if fold_case b < fold_case a then 1
      else compare_letters as bs)"

fun compare_case :: "string \<Rightarrow> string \<Rightarrow> int" where
  "compare_case (a # as) (b # bs) =
     (if (of_char b :: nat) < of_char a then - 1
      else if (of_char a :: nat) < of_char b then 1
      else compare_case as bs)"
| "compare_case as bs = 0"

definition mem_localeCompare :: "string \<Rightarrow> string \<Rightarrow> int" where
  "mem_localeCompare a b =
     (if compare_letters a b \<noteq> 0 then compare_letters a b else compare_case a b)"

definition set_key_system_identifier ::
  "KeySystemIdentifier option \<Rightarrow> DecryptedItem \<Rightarrow> DecryptedItem \<Rightarrow> DecryptedItem" where
  "set_key_system_identifier k item i =
     (if uuid i = uuid item then i\<lparr>key_system_identifier := k\<rparr> else i)"

definition mem_decryptErroredPayloads :: "mem_world \<Rightarrow> (rejection + unit) \<times> mem_world" where
  "mem_decryptErroredPayloads w =
     (Inr (),
      w\<lparr>itemsKeys := itemsKeys w @
           map snd (filter (\<lambda>(rk, k, ik). map_of (rootKeys w) k = Some rk) (erroredItemsKeys w)),
        erroredItemsKeys :=
           filter (\<lambda>(rk, k, ik). map_of (rootKeys w) k \<noteq> Some rk) (erroredItemsKeys w)\<rparr>)"

definition mem_DeleteVaultUseCase ::
  "VaultListing \<Rightarrow> mem_world \<Rightarrow> (rejection + ClientDisplayableError option) \<times> mem_world" where
  "mem_DeleteVaultUseCase v w =
     (if v \<in> set (vaultListings w)
      then (Inr None,
            w\<lparr>vaultListings := removeAll v (vaultListings w),
              rootKeys := filter (\<lambda>(k, _). k \<noteq> systemIdentifier v) (rootKeys w),
              itemsKeys := filter (\<lambda>(k, _). k \<noteq> systemIdentifier v) (itemsKeys w)\<rparr>)
      else (Inr (Some (ClientDisplayableError ''Unable to delete vault'')), w))"

definition mem_env :: "mem_world collaborators" where
  "mem_env =
     \<lparr> items_getItems_VaultListing = vaultListings,
       items_findSureItem = (\<lambda>w u.
         case find (\<lambda>i. uuid i = u) (decryptedItems w) of
           None \<Rightarrow> Inl ''Item not found''
         | Some i \<Rightarrow> Inr i),
       localeCompare = mem_localeCompare,
       keys_getPrimaryKeySystemRootKey = (\<lambda>w. map_of (rootKeys w)),
       keys_getPrimaryKeySystemItemsKey = (\<lambda>w. map_of (itemsKeys w)),
       keys_clearMemoryOfKeysRelatedToVault = (\<lambda>v w.
         w\<lparr>rootKeys := filter (\<lambda>(k, _). k \<noteq> systemIdentifier v) (rootKeys w),
           itemsKeys := filter (\<lambda>(k, _). k \<noteq> systemIdentifier v) (itemsKeys w)\<rparr>),
       keys_intakeNonPersistentKeySystemRootKey = (\<lambda>key mode w.
         case key of KeySystemRootKey k _ \<Rightarrow> w\<lparr>rootKeys := (k, key) # rootKeys w\<rparr>),
       keys_undoIntakeNonPersistentKeySystemRootKey = (\<lambda>k w.
         w\<lparr>rootKeys := filter (\<lambda>(k', _). k' \<noteq> k) (rootKeys w)\<rparr>),
       encryption_deriveUserInputtedKeySystemRootKey = (\<lambda>params password.
         case params of KeySystemRootKeyParams k salt \<Rightarrow> KeySystemRootKey k (salt @ password)),
       encryption_decryptErroredPayloads = mem_decryptErroredPayloads,
       sync_sync = (\<lambda>w. (Inr (), w\<lparr>syncs := Suc (syncs w)\<rparr>)),
       AddItemsToVaultUseCase_execute = (\<lambda>v items w.
         (Inr (),
          w\<lparr>decryptedItems :=
              foldr (\<lambda>item. map (set_key_system_identifier (Some (systemIdentifier v)) item))
                items (decryptedItems w)\<rparr>)),
       RemoveItemFromVault_execute = (\<lambda>item w.
         (Inr (), w\<lparr>decryptedItems := map (set_key_system_identifier None item) (decryptedItems w)\<rparr>)),
       DeleteVaultUseCase_execute = mem_DeleteVaultUseCase,
       RotateVaultRootKeyUseCase_execute = (\<lambda>v sharedVaultUuid userInputtedPassword w.
         (Inr (),
          w\<lparr>rootKeys := (systemIdentifier v, KeySystemRootKey (systemIdentifier v) ''rotated'')
                # filter (\<lambda>(k, _). k \<noteq> systemIdentifier v) (rootKeys w)\<rparr>)),
       ChangeVaultKeyOptionsUseCase_execute = (\<lambda>dto w. (Inr (), w)) \<rparr>"

text \<open>Two vault listings: "Work", kept in memory under a user-inputted password, and
  "Archive", with a synced randomized key and shared.\<close>

definition vault_work :: VaultListing where
  "vault_work =
     \<lparr> uuid = ''u1'', key_system_identifier = None, systemIdentifier = ''k1'',
       name = ''Work'', description = None, keyStorageMode = Ephemeral,
       keyPasswordType = UserInputted, rootKeyParams = KeySystemRootKeyParams ''k1'' ''salt'',
       sharing = None \<rparr>"

definition vault_archive :: VaultListing where
  "vault_archive =
     \<lparr> uuid = ''u2'', key_system_identifier = None, systemIdentifier = ''k2'',
       name = ''Archive'', description = None, keyStorageMode = Synced,
       keyPasswordType = Randomized, rootKeyParams = KeySystemRootKeyParams ''k2'' ''salt'',
       sharing = Some ''shared-1'' \<rparr>"

definition note_in_work :: DecryptedItem where
  "note_in_work = \<lparr> uuid = ''n1'', key_system_identifier = Some ''k1'' \<rparr>"

definition note_free :: DecryptedItem where
  "note_free = \<lparr> uuid = ''n2'', key_system_identifier = None \<rparr>"

definition note_orphan :: DecryptedItem where
  "note_orphan = \<lparr> uuid = ''n3'', key_system_identifier = Some ''k9'' \<rparr>"

definition key_work :: KeySystemRootKey where
  "key_work = KeySystemRootKey ''k1'' ''saltcorrect''"

definition itemsKey_work :: KeySystemItemsKey where
  "itemsKey_work = KeySystemItemsKey ''k1'' ''items-key''"

text \<open>\<open>world_open\<close>: both keys of "Work" are in the key store. \<open>world_closed\<close>: neither
  is, and the items key of "Work" waits among the errored payloads for the root key that
  the password \<^verbatim>\<open>correct\<close> derives.\<close>

definition world_open :: mem_world where
  "world_open =
     \<lparr> vaultListings = [vault_work, vault_archive],
       decryptedItems = [note_in_work, note_free, note_orphan],
       rootKeys = [(''k1'', key_work)],
       itemsKeys = [(''k1'', itemsKey_work)],
       erroredItemsKeys = [],
       syncs = 0 \<rparr>"

definition world_closed :: mem_world where
  "world_closed =
     \<lparr> vaultListings = [vault_work, vault_archive],
       decryptedItems = [note_in_work, note_free, note_orphan],
       rootKeys = [],
       itemsKeys = [],
       erroredItemsKeys = [(key_work, ''k1'', itemsKey_work)],
       syncs = 0 \<rparr>"

text \<open>\<open>world_root_only\<close>: the root key of "Work" is in the key store and its items key is
  not, the case in which \<^verbatim>\<open>computeVaultLockState\<close> answers \<open>locked\<close> at its second
  test.\<close>

definition world_root_only :: mem_world where
  "world_root_only =
     \<lparr> vaultListings = [vault_work, vault_archive],
       decryptedItems = [note_in_work, note_free, note_orphan],
       rootKeys = [(''k1'', key_work)],
       itemsKeys = [],
       erroredItemsKeys = [],
       syncs = 0 \<rparr>"


definition service :: "(Uuid \<times> bool) list \<Rightarrow> mem_world \<Rightarrow> mem_world VaultService" where
  "service cache w = \<lparr> lockMap = map_of cache, world = w, events = [], calls = [] \<rparr>"

section \<open>Auxiliary facts\<close>

lemmas step_defs = invoke_def perform_def notifyEvent_def propagate_def

lemmas fixture_defs = mem_env_def world_open_def world_closed_def world_root_only_def
  mem_localeCompare_def fold_case_def vault_work_def
  vault_archive_def note_in_work_def note_free_def note_orphan_def key_work_def
  itemsKey_work_def service_def

subsection \<open>Sorting keeps the listings\<close>

lemma set_insert_sorted: "set (insert_sorted cmp x ys) = insert x (set ys)"
  by (induction ys) auto

lemma set_foldl_insert_sorted:
  "set (foldl (\<lambda>acc x. insert_sorted cmp x acc) acc xs) = set acc \<union> set xs"
  by (induction xs arbitrary: acc) (auto simp: set_insert_sorted)

lemma set_sort_array: "set (sort_array cmp xs) = set xs"
  by (simp add: sort_array_def set_foldl_insert_sorted)

lemma distinct_map_insert_sorted:
  "distinct (map f (insert_sorted cmp x ys)) = (f x \<notin> f ` set ys \<and> distinct (map f ys))"
  by (induction ys) (auto simp: set_insert_sorted)

lemma distinct_map_foldl_insert_sorted:
  "distinct (map f (foldl (\<lambda>acc x. insert_sorted cmp x acc) acc xs)) =
     distinct (map f (acc @ xs))"
  by (induction xs arbitrary: acc)
     (auto simp: distinct_map_insert_sorted set_insert_sorted set_foldl_insert_sorted)

lemma distinct_map_sort_array: "distinct (map f (sort_array cmp xs)) = distinct (map f xs)"
  by (simp add: sort_array_def distinct_map_foldl_insert_sorted)

subsection \<open>The recompute loop\<close>

lemma world_recompute_loop: "world (recompute_loop env vaults s) = world s"
  by (induction vaults arbitrary: s) (auto simp: Let_def notifyEvent_def)

lemma lockMap_recompute_loop_other:
  "u \<notin> uuid ` set vaults \<Longrightarrow> lockMap (recompute_loop env vaults s) u = lockMap s u"
  by (induction vaults arbitrary: s) (auto simp: Let_def notifyEvent_def)

lemma lockMap_recompute_loop_member:
  "v \<in> set vaults \<Longrightarrow> distinct (map uuid vaults) \<Longrightarrow>
   lockMap (recompute_loop env vaults s) (uuid v) =
     Some (computeVaultLockState env (world s) v = locked)"
proof (induction vaults arbitrary: s)
  case Nil
  then show ?case by simp
next
  case (Cons a vaults)
  show ?case
  proof (cases "v = a")
    case True
    from Cons.prems have "uuid a \<notin> uuid ` set vaults" by auto
    then show ?thesis using True
      by (simp add: Let_def notifyEvent_def lockMap_recompute_loop_other)
  next
    case False
    with Cons.prems have "v \<in> set vaults" "distinct (map uuid vaults)" by auto
    then show ?thesis using Cons.IH
      by (simp add: Let_def notifyEvent_def)
  qed
qed

subsection \<open>Where an error of the service can come from\<close>

lemma propagate_not_Error: "propagate r \<noteq> Inl (Error m)"
  by (cases r) (simp_all add: propagate_def)

lemma fst_invoke: "fst (invoke c f s) = propagate (fst (f (world s)))"
  by (simp add: invoke_def split: prod.splits)

lemma fst_invoke_not_Error: "fst (invoke c f s) \<noteq> Inl (Error m)"
  by (simp add: fst_invoke propagate_not_Error)

lemma invoke_not_Error: "invoke c f s \<noteq> (Inl (Error m), s')"
  using fst_invoke_not_Error [of c f s m] by auto

lemma addItemToVault_useCase_not_Error:
  "fst (addItemToVault_useCase env v item s) \<noteq> Inl (Error m)"
proof (cases "invoke (Call_AddItemsToVaultUseCase v [item])
                (AddItemsToVaultUseCase_execute env v [item]) s")
  case (Pair r s1)
  then show ?thesis
    using invoke_not_Error [of "Call_AddItemsToVaultUseCase v [item]"
        "AddItemsToVaultUseCase_execute env v [item]" s m s1]
    by (cases r) (auto simp: addItemToVault_useCase_def propagate_not_Error)
qed

lemma removeItemFromVault_Error:
  assumes "fst (removeItemFromVault env item s) = Inl (Error m)"
  shows "m = ''Item does not belong to any vault'' \<or>
         m = ''Attempting to remove item from locked vault''"
proof (cases "getItemVault env (world s) item")
  case None
  with assms show ?thesis by (simp add: removeItemFromVault_def)
next
  case (Some v)
  show ?thesis
  proof (cases "isVaultLocked s v")
    case True
    with Some assms show ?thesis by (simp add: removeItemFromVault_def)
  next
    case False
    obtain r s1 where inv: "invoke (Call_RemoveItemFromVault item)
        (RemoveItemFromVault_execute env item) s = (r, s1)" by (cases "invoke (Call_RemoveItemFromVault item)
        (RemoveItemFromVault_execute env item) s") auto
    with Some False assms invoke_not_Error [of "Call_RemoveItemFromVault item"
        "RemoveItemFromVault_execute env item" s m s1]
    have False
      by (cases r) (auto simp: removeItemFromVault_def propagate_not_Error)
    then show ?thesis ..
  qed
qed

lemma rotate_guard:
  "(fst (rotateVaultRootKey env v s) = Inl (Error ''Cannot rotate root key of locked vault'')) =
     (computeVaultLockState env (world s) v = locked)"
proof (cases "computeVaultLockState env (world s) v = locked")
  case True
  then show ?thesis by (simp add: rotateVaultRootKey_def)
next
  case False
  let ?shared = "if isSharedVaultListing v then sharing v else None"
  obtain r s1 where inv: "invoke (Call_RotateVaultRootKeyUseCase v ?shared None)
      (RotateVaultRootKeyUseCase_execute env v ?shared None) s = (r, s1)"
    by (cases "invoke (Call_RotateVaultRootKeyUseCase v ?shared None)
      (RotateVaultRootKeyUseCase_execute env v ?shared None) s") auto
  have "fst (rotateVaultRootKey env v s) \<noteq> Inl (Error ''Cannot rotate root key of locked vault'')"
  proof (cases r)
    case (Inl e)
    with inv invoke_not_Error [of _ _ s _ s1] False show ?thesis
      by (auto simp: rotateVaultRootKey_def Let_def)
  next
    case (Inr u)
    with inv False show ?thesis
      by (simp add: rotateVaultRootKey_def Let_def fst_invoke_not_Error)
  qed
  with False show ?thesis by simp
qed

lemma addItem_guard:
  "(fst (addItemToVault env v item s) = Inl (Error ''Attempting to add item to locked vault'')) =
     isVaultLocked s v"
proof (cases "isVaultLocked s v")
  case True
  then show ?thesis by (simp add: addItemToVault_def)
next
  case False
  have "fst (addItemToVault env v item s) \<noteq> Inl (Error ''Attempting to add item to locked vault'')"
  proof (cases "getItemVault env (world s) item")
    case None
    with False show ?thesis
      by (simp add: addItemToVault_def addItemToVault_useCase_not_Error)
  next
    case (Some W)
    obtain r s1 where rm: "removeItemFromVault env item s = (r, s1)"
      by (cases "removeItemFromVault env item s") auto
    show ?thesis
    proof (cases r)
      case (Inl e)
      have "e \<noteq> Error ''Attempting to add item to locked vault''"
      proof
        assume "e = Error ''Attempting to add item to locked vault''"
        with rm Inl removeItemFromVault_Error [of env item s "''Attempting to add item to locked vault''"]
        show False by simp
      qed
      with False Some rm Inl show ?thesis by (simp add: addItemToVault_def)
    next
      case (Inr i')
      with False Some rm show ?thesis
        by (simp add: addItemToVault_def addItemToVault_useCase_not_Error)
    qed
  qed
  with False show ?thesis by simp
qed

lemma changeVaultOptions_guard:
  "(fst (changeVaultOptions env dto s) =
      Inl (Error ''Attempting to change vault options on a locked vault'')) =
     isVaultLocked s (vault dto)"
proof (cases "isVaultLocked s (vault dto)")
  case True
  then show ?thesis by (simp add: changeVaultOptions_def)
next
  case False
  obtain r s1 where inv: "invoke (Call_ChangeVaultKeyOptionsUseCase dto)
      (ChangeVaultKeyOptionsUseCase_execute env dto) s = (r, s1)"
    by (cases "invoke (Call_ChangeVaultKeyOptionsUseCase dto)
      (ChangeVaultKeyOptionsUseCase_execute env dto) s") auto
  with False invoke_not_Error [of _ _ s _ s1] show ?thesis
    by (cases r) (auto simp: changeVaultOptions_def)
qed

section \<open>Properties\<close>

text \<open>
  C1. For every vault, \<^verbatim>\<open>computeVaultLockState\<close> returns \<open>unlocked\<close> if and only if
  both the root key and the items key are present in the key store for the vault's
  key-system identifier; in every other case (root key absent, or root key present and
  items key absent) it returns \<open>locked\<close>.
\<close>

theorem computeVaultLockState_unlocked_iff:
  "(computeVaultLockState env w v = unlocked) =
     (keys_getPrimaryKeySystemRootKey env w (systemIdentifier v) \<noteq> None \<and>
      keys_getPrimaryKeySystemItemsKey env w (systemIdentifier v) \<noteq> None)
   \<and> (computeVaultLockState env w v = locked) =
     (keys_getPrimaryKeySystemRootKey env w (systemIdentifier v) = None \<or>
      keys_getPrimaryKeySystemItemsKey env w (systemIdentifier v) = None)"
  by (auto simp: computeVaultLockState_def split: option.splits)

theorem computeVaultLockState_unlocked_iff_witness:
  "computeVaultLockState mem_env world_open vault_work = unlocked \<and>
   computeVaultLockState mem_env world_closed vault_work = locked"
  using computeVaultLockState_unlocked_iff [of mem_env world_open vault_work]
    computeVaultLockState_unlocked_iff [of mem_env world_closed vault_work]
  by (simp add: fixture_defs)

text \<open>
  C2, as stated: after a pass of \<^verbatim>\<open>recomputeAllVaultsLockingState\<close>,
  \<^verbatim>\<open>isVaultLocked(v)\<close> equals "root key present and items key present". It fails on the
  listing "Work" with both keys in the key store: the pass leaves it not locked.
\<close>

theorem recompute_isVaultLocked_conjunction_counterexample:
  "isVaultLocked (recomputeAllVaultsLockingState mem_env (service [] world_open)) vault_work \<noteq>
     (keys_getPrimaryKeySystemRootKey mem_env
        (world (recomputeAllVaultsLockingState mem_env (service [] world_open)))
        (systemIdentifier vault_work) \<noteq> None \<and>
      keys_getPrimaryKeySystemItemsKey mem_env
        (world (recomputeAllVaultsLockingState mem_env (service [] world_open)))
        (systemIdentifier vault_work) \<noteq> None)"
  by (simp add: recomputeAllVaultsLockingState_def getVaults_def sort_array_def
      isVaultLocked_def computeVaultLockState_def notifyEvent_def fixture_defs)

text \<open>
  C2, amended: for every vault listing \<open>v\<close> of the item index (listings having distinct
  uuids), immediately after a completed pass of \<^verbatim>\<open>recomputeAllVaultsLockingState\<close>,
  \<^verbatim>\<open>isVaultLocked(v)\<close> equals the negation of "root key present and items key present" in
  the key store for \<open>v\<close>'s key-system identifier.
\<close>

theorem recompute_isVaultLocked_iff_key_missing:
  assumes "v \<in> set (items_getItems_VaultListing env (world s))"
    and "distinct (map uuid (items_getItems_VaultListing env (world s)))"
  shows "isVaultLocked (recomputeAllVaultsLockingState env s) v =
           (\<not> (keys_getPrimaryKeySystemRootKey env
                  (world (recomputeAllVaultsLockingState env s)) (systemIdentifier v) \<noteq> None \<and>
                keys_getPrimaryKeySystemItemsKey env
                  (world (recomputeAllVaultsLockingState env s)) (systemIdentifier v) \<noteq> None))"
proof -
  let ?vs = "getVaults env (world s)"
  have mem: "v \<in> set ?vs" using assms(1) by (simp add: getVaults_def set_sort_array)
  have dist: "distinct (map uuid ?vs)"
    using assms(2) by (simp add: getVaults_def distinct_map_sort_array)
  have "lockMap (recomputeAllVaultsLockingState env s) (uuid v) =
          Some (computeVaultLockState env (world s) v = locked)"
    unfolding recomputeAllVaultsLockingState_def
    by (rule lockMap_recompute_loop_member [OF mem dist])
  moreover have "world (recomputeAllVaultsLockingState env s) = world s"
    by (simp add: recomputeAllVaultsLockingState_def world_recompute_loop)
  ultimately show ?thesis
    by (auto simp: isVaultLocked_def computeVaultLockState_def split: option.splits)
qed

theorem recompute_isVaultLocked_iff_key_missing_witness:
  "(vault_work \<in> set (items_getItems_VaultListing mem_env (world (service [] world_closed))) \<and>
    distinct (map uuid (items_getItems_VaultListing mem_env (world (service [] world_closed)))) \<and>
    isVaultLocked (recomputeAllVaultsLockingState mem_env (service [] world_closed)) vault_work \<and>
    keys_getPrimaryKeySystemRootKey mem_env world_closed (systemIdentifier vault_work) = None) \<and>
   (isVaultLocked (recomputeAllVaultsLockingState mem_env (service [(''u1'', True)] world_open))
      vault_work = False \<and>
    keys_getPrimaryKeySystemRootKey mem_env world_open (systemIdentifier vault_work)
      = Some key_work \<and>
    keys_getPrimaryKeySystemItemsKey mem_env world_open (systemIdentifier vault_work)
      = Some itemsKey_work)"
  (is "?closed \<and> ?opened")
proof -
  have closed: ?closed
    using recompute_isVaultLocked_iff_key_missing
      [of vault_work mem_env "service [] world_closed"]
    by (simp add: recomputeAllVaultsLockingState_def world_recompute_loop fixture_defs)
  have opened: ?opened
    using recompute_isVaultLocked_iff_key_missing
      [of vault_work mem_env "service [(''u1'', True)] world_open"]
    by (simp add: recomputeAllVaultsLockingState_def world_recompute_loop fixture_defs)
  show ?thesis by (rule conjI [OF closed opened])
qed




text \<open>
  C4, as stated: \<^verbatim>\<open>addItemToVault(V, i)\<close> runs the removal beforehand if and only if
  \<open>i\<close> belongs to a vault different from \<open>V\<close>; when \<open>i\<close> already belongs to \<open>V\<close>,
  no removal is performed. It fails on a note that is already in "Work" and is added to
  "Work": the Remove use case runs on it before the Add use case.
\<close>

theorem addItemToVault_same_vault_counterexample:
  "key_system_identifier note_in_work = Some (systemIdentifier vault_work) \<and>
   getItemVault mem_env world_open note_in_work = Some vault_work \<and>
   \<not> isVaultLocked (service [] world_open) vault_work \<and>
   calls (snd (addItemToVault mem_env vault_work note_in_work (service [] world_open))) =
     [Call_RemoveItemFromVault note_in_work,
      Call_AddItemsToVaultUseCase vault_work [note_in_work]]"
  by (simp add: addItemToVault_def addItemToVault_useCase_def removeItemFromVault_def
      getItemVault_def getVault_def GetVaultUseCase_execute_def isVaultLocked_def
      step_defs fixture_defs set_key_system_identifier_def)

text \<open>
  C4, amended: for every target vault \<open>V\<close> that is not locked and every item \<open>i\<close>,
  \<^verbatim>\<open>addItemToVault(V, i)\<close> calls \<^verbatim>\<open>removeItemFromVault(i)\<close> beforehand if and only if
  \<^verbatim>\<open>getItemVault(i)\<close> finds a vault, \<open>V\<close> itself included. When \<open>i\<close> belongs to no
  vault, the only use case run is Add. When \<open>i\<close> belongs to a vault \<open>W\<close>: if \<open>W\<close> is
  locked the call fails with the error of \<^verbatim>\<open>removeItemFromVault\<close> and nothing has
  happened; otherwise the Remove use case runs on \<open>i\<close> first, and the Add use case, if it
  runs, comes after it.
\<close>

theorem addItemToVault_removes_iff_in_some_vault:
  assumes "\<not> isVaultLocked s V"
    and "addItemToVault env V i s = (r, s')"
  shows "(getItemVault env (world s) i = None \<longrightarrow>
            calls s' = calls s @ [Call_AddItemsToVaultUseCase V [i]])
       \<and> (\<forall>W. getItemVault env (world s) i = Some W \<and> isVaultLocked s W \<longrightarrow>
            r = Inl (Error ''Attempting to remove item from locked vault'') \<and> s' = s)
       \<and> (\<forall>W. getItemVault env (world s) i = Some W \<and> \<not> isVaultLocked s W \<longrightarrow>
            calls s' = calls s @ [Call_RemoveItemFromVault i] \<or>
            calls s' = calls s @ [Call_RemoveItemFromVault i, Call_AddItemsToVaultUseCase V [i]])
       \<and> (getItemVault env (world s) i \<noteq> None) =
            (r = Inl (Error ''Attempting to remove item from locked vault'') \<or>
             Call_RemoveItemFromVault i \<in> set (drop (length (calls s)) (calls s')))"
  using assms
  by (auto simp: addItemToVault_def addItemToVault_useCase_def removeItemFromVault_def
        step_defs split: option.splits if_splits prod.splits sum.splits)

theorem addItemToVault_removes_iff_in_some_vault_witness:
  "(\<not> isVaultLocked (service [] world_open) vault_work \<and>
    getItemVault mem_env (world (service [] world_open)) note_free = None \<and>
    calls (snd (addItemToVault mem_env vault_work note_free (service [] world_open))) =
      [Call_AddItemsToVaultUseCase vault_work [note_free]] \<and>
    fst (addItemToVault mem_env vault_work note_free (service [] world_open)) =
      Inr (note_free\<lparr>key_system_identifier := Some ''k1''\<rparr>)) \<and>
   (getItemVault mem_env (world (service [] world_open)) note_in_work = Some vault_work \<and>
    calls (snd (addItemToVault mem_env vault_work note_in_work (service [] world_open))) =
      [Call_RemoveItemFromVault note_in_work,
       Call_AddItemsToVaultUseCase vault_work [note_in_work]]) \<and>
   (\<not> isVaultLocked (service [(''u2'', True)] world_open) vault_work \<and>
    isVaultLocked (service [(''u2'', True)] world_open) vault_archive \<and>
    getItemVault mem_env (world (service [(''u2'', True)] world_open))
      (note_free\<lparr>key_system_identifier := Some ''k2''\<rparr>) = Some vault_archive \<and>
    addItemToVault mem_env vault_work (note_free\<lparr>key_system_identifier := Some ''k2''\<rparr>)
        (service [(''u2'', True)] world_open) =
      (Inl (Error ''Attempting to remove item from locked vault''),
       service [(''u2'', True)] world_open))"
  (is "?none \<and> ?same \<and> ?locked")
proof -
  have none: ?none
    using addItemToVault_removes_iff_in_some_vault
      [of "service [] world_open" vault_work mem_env note_free
          "fst (addItemToVault mem_env vault_work note_free (service [] world_open))"
          "snd (addItemToVault mem_env vault_work note_free (service [] world_open))"]
    by (simp add: addItemToVault_def addItemToVault_useCase_def
        getItemVault_def isVaultLocked_def
        step_defs fixture_defs set_key_system_identifier_def)
  have same: ?same
    using addItemToVault_removes_iff_in_some_vault
      [of "service [] world_open" vault_work mem_env note_in_work
          "fst (addItemToVault mem_env vault_work note_in_work (service [] world_open))"
          "snd (addItemToVault mem_env vault_work note_in_work (service [] world_open))"]
    by (simp add: addItemToVault_def addItemToVault_useCase_def removeItemFromVault_def
        getItemVault_def getVault_def GetVaultUseCase_execute_def isVaultLocked_def
        step_defs fixture_defs set_key_system_identifier_def)
  have locked: ?locked
    using addItemToVault_removes_iff_in_some_vault
      [of "service [(''u2'', True)] world_open" vault_work mem_env
          "note_free\<lparr>key_system_identifier := Some ''k2''\<rparr>"
          "fst (addItemToVault mem_env vault_work
             (note_free\<lparr>key_system_identifier := Some ''k2''\<rparr>)
             (service [(''u2'', True)] world_open))"
          "snd (addItemToVault mem_env vault_work
             (note_free\<lparr>key_system_identifier := Some ''k2''\<rparr>)
             (service [(''u2'', True)] world_open))"]
    by (simp add: addItemToVault_def removeItemFromVault_def
        getItemVault_def getVault_def GetVaultUseCase_execute_def isVaultLocked_def
        fixture_defs)
  show ?thesis by (rule conjI [OF none conjI [OF same locked]])
qed

text \<open>
  C5, as stated: \<^verbatim>\<open>isItemInVault(item)\<close> is true if and only if the item's
  \<^verbatim>\<open>key_system_identifier\<close> is set and matches the key-system identifier of an existing
  vault listing. It fails on a note whose identifier \<^verbatim>\<open>k9\<close> matches none of the
  listings (\<^verbatim>\<open>k1\<close>, \<^verbatim>\<open>k2\<close>): \<^verbatim>\<open>isItemInVault\<close> is true all the same.
\<close>

theorem isItemInVault_orphan_counterexample:
  "isItemInVault note_orphan \<and>
   key_system_identifier note_orphan = Some ''k9'' \<and>
   map systemIdentifier (items_getItems_VaultListing mem_env world_open) = [''k1'', ''k2'']"
  by (simp add: isItemInVault_def fixture_defs)

text \<open>
  C5, amended: \<^verbatim>\<open>isItemInVault(item)\<close> is true if and only if the item's
  \<^verbatim>\<open>key_system_identifier\<close> is set (not undefined), whatever the vault listings are.
  \<^verbatim>\<open>getItemVault(item)\<close> returns absent exactly when the item carries no key-system
  identifier (undefined, or the empty string, which the truthiness test of the code treats
  alike) or no vault listing with a matching identifier exists; a vault it returns is a
  listing of the index whose identifier is the item's. Both are lookups: they take the
  item (and the index) and return a value, no state.
\<close>

theorem isItemInVault_getItemVault_lookup:
  "isItemInVault item = (key_system_identifier item \<noteq> None)
   \<and> (getItemVault env w item = None) =
       (key_system_identifier item = None \<or> key_system_identifier item = Some [] \<or>
        \<not> (\<exists>listing \<in> set (items_getItems_VaultListing env w).
              Some (systemIdentifier listing) = key_system_identifier item))
   \<and> (\<forall>v. getItemVault env w item = Some v \<longrightarrow>
         v \<in> set (items_getItems_VaultListing env w) \<and>
         key_system_identifier item = Some (systemIdentifier v) \<and> isItemInVault item)"
  by (auto simp: isItemInVault_def getItemVault_def getVault_def GetVaultUseCase_execute_def
        find_None_iff find_Some_iff split: option.splits)

theorem isItemInVault_getItemVault_lookup_witness:
  "getItemVault mem_env world_open note_in_work = Some vault_work \<and>
   vault_work \<in> set (items_getItems_VaultListing mem_env world_open) \<and>
   key_system_identifier note_in_work = Some (systemIdentifier vault_work) \<and>
   isItemInVault note_in_work \<and>
   isItemInVault note_free = False \<and>
   getItemVault mem_env world_open note_free = None"
  using isItemInVault_getItemVault_lookup [of note_in_work mem_env world_open]
    isItemInVault_getItemVault_lookup [of note_free mem_env world_open]
  by (simp add: getItemVault_def getVault_def GetVaultUseCase_execute_def fixture_defs)

text \<open>
  C6. For every vault whose storage mode is \<^verbatim>\<open>Synced\<close>,
  \<^verbatim>\<open>lockNonPersistentVault\<close> fails with the error "Vault uses synced root key and
  cannot be locked" (the spec's \<^verbatim>\<open>InvalidOperationError\<close>) and leaves the whole state as
  it was: no lock-map entry created or changed, no key material cleared. For every other
  storage mode it has the key store clear the vault's key material, sets the vault's
  lock-map entry to true, so that the vault is locked, and emits \<^verbatim>\<open>VaultLocked\<close>.
\<close>

theorem lockNonPersistentVault_synced_or_locks:
  "(keyStorageMode v = Synced \<longrightarrow>
      lockNonPersistentVault env v s =
        (Inl (Error ''Vault uses synced root key and cannot be locked''), s))
   \<and> (keyStorageMode v \<noteq> Synced \<longrightarrow>
      lockNonPersistentVault env v s =
        (Inr (),
         s\<lparr>lockMap := (lockMap s)(uuid v \<mapsto> True),
           world := keys_clearMemoryOfKeysRelatedToVault env v (world s),
           events := events s @ [(VaultLocked, v)],
           calls := calls s @ [Call_clearMemoryOfKeysRelatedToVault v]\<rparr>) \<and>
      isVaultLocked (snd (lockNonPersistentVault env v s)) v)"
  by (simp add: lockNonPersistentVault_def isVaultLocked_def step_defs Let_def)

theorem lockNonPersistentVault_synced_or_locks_witness:
  "keyStorageMode vault_archive = Synced \<and>
   lockNonPersistentVault mem_env vault_archive (service [] world_open) =
     (Inl (Error ''Vault uses synced root key and cannot be locked''), service [] world_open) \<and>
   keyStorageMode vault_work = Ephemeral \<and>
   fst (lockNonPersistentVault mem_env vault_work (service [] world_open)) = Inr () \<and>
   isVaultLocked (snd (lockNonPersistentVault mem_env vault_work (service [] world_open)))
     vault_work \<and>
   rootKeys (world (snd (lockNonPersistentVault mem_env vault_work (service [] world_open))))
     = [] \<and>
   events (snd (lockNonPersistentVault mem_env vault_work (service [] world_open)))
     = [(VaultLocked, vault_work)]"
  using lockNonPersistentVault_synced_or_locks [of vault_archive mem_env "service [] world_open"]
    lockNonPersistentVault_synced_or_locks [of vault_work mem_env "service [] world_open"]
  by (simp add: lockNonPersistentVault_def isVaultLocked_def step_defs Let_def fixture_defs)

text \<open>
  C7. \<^verbatim>\<open>deleteVault(vault)\<close> fails with the error "Shared vault must be deleted
  through SharedVaultService" (the spec's \<^verbatim>\<open>WrongVaultKindError\<close>) whenever
  \<^verbatim>\<open>vault.isSharedVaultListing()\<close> is true, and the state is then untouched: no use
  case, key store or synchronizer call. When the Delete use case reports a displayable
  error, it returns false without throwing and without a sync call. When the use case
  reports no error, it calls sync next, and returns true once the sync completes.
\<close>

theorem deleteVault_outcomes:
  "(isSharedVaultListing v \<longrightarrow>
      deleteVault env v s =
        (Inl (Error ''Shared vault must be deleted through SharedVaultService''), s))
   \<and> (\<forall>e w1. \<not> isSharedVaultListing v \<and>
        DeleteVaultUseCase_execute env v (world s) = (Inr (Some e), w1) \<longrightarrow>
        deleteVault env v s =
          (Inr False, s\<lparr>world := w1, calls := calls s @ [Call_DeleteVaultUseCase v]\<rparr>))
   \<and> (\<forall>w1. \<not> isSharedVaultListing v \<and>
        DeleteVaultUseCase_execute env v (world s) = (Inr None, w1) \<longrightarrow>
        calls (snd (deleteVault env v s)) = calls s @ [Call_DeleteVaultUseCase v, Call_sync] \<and>
        world (snd (deleteVault env v s)) = snd (sync_sync env w1))
   \<and> (\<forall>w1 w2. \<not> isSharedVaultListing v \<and>
        DeleteVaultUseCase_execute env v (world s) = (Inr None, w1) \<and>
        sync_sync env w1 = (Inr (), w2) \<longrightarrow>
        deleteVault env v s =
          (Inr True, s\<lparr>world := w2, calls := calls s @ [Call_DeleteVaultUseCase v, Call_sync]\<rparr>))"
  by (auto simp: deleteVault_def isClientDisplayableError_def step_defs
        split: prod.splits sum.splits)

theorem deleteVault_outcomes_witness:
  "isSharedVaultListing vault_archive \<and>
   deleteVault mem_env vault_archive (service [] world_open) =
     (Inl (Error ''Shared vault must be deleted through SharedVaultService''),
      service [] world_open) \<and>
   fst (deleteVault mem_env vault_work (service [] world_open)) = Inr True \<and>
   calls (snd (deleteVault mem_env vault_work (service [] world_open))) =
     [Call_DeleteVaultUseCase vault_work, Call_sync] \<and>
   syncs (world (snd (deleteVault mem_env vault_work (service [] world_open)))) = 1 \<and>
   fst (deleteVault mem_env (vault_work\<lparr>uuid := ''u3''\<rparr>) (service [] world_open)) = Inr False \<and>
   calls (snd (deleteVault mem_env (vault_work\<lparr>uuid := ''u3''\<rparr>) (service [] world_open))) =
     [Call_DeleteVaultUseCase (vault_work\<lparr>uuid := ''u3''\<rparr>)]"
  using deleteVault_outcomes [of vault_archive mem_env "service [] world_open"]
    deleteVault_outcomes [of vault_work mem_env "service [] world_open"]
    deleteVault_outcomes [of "vault_work\<lparr>uuid := ''u3''\<rparr>" mem_env "service [] world_open"]
  by (simp add: deleteVault_def isSharedVaultListing_def isClientDisplayableError_def
      mem_DeleteVaultUseCase_def step_defs fixture_defs)

text \<open>
  C8. \<^verbatim>\<open>removeItemFromVault(item)\<close> fails with "Item does not belong to any vault" (the
  spec's \<^verbatim>\<open>NotInVaultError\<close>) when \<^verbatim>\<open>getItemVault\<close> finds no vault for the item,
  which is the first check; it fails with "Attempting to remove item from locked vault"
  (\<^verbatim>\<open>LockedVaultError\<close>) when the item's vault is locked; both leave the state as it was.
  Otherwise it runs the Remove use case and, when that completes, returns what
  \<^verbatim>\<open>findSureItem\<close> gives for the item's uuid in the index as the use case left it.
\<close>

theorem removeItemFromVault_outcomes:
  "(getItemVault env (world s) item = None \<longrightarrow>
      removeItemFromVault env item s = (Inl (Error ''Item does not belong to any vault''), s))
   \<and> (\<forall>v. getItemVault env (world s) item = Some v \<and> isVaultLocked s v \<longrightarrow>
        removeItemFromVault env item s =
          (Inl (Error ''Attempting to remove item from locked vault''), s))
   \<and> (\<forall>v w1. getItemVault env (world s) item = Some v \<and> \<not> isVaultLocked s v \<and>
        RemoveItemFromVault_execute env item (world s) = (Inr (), w1) \<longrightarrow>
        removeItemFromVault env item s =
          (propagate (items_findSureItem env w1 (uuid item)),
           s\<lparr>world := w1, calls := calls s @ [Call_RemoveItemFromVault item]\<rparr>))"
  by (simp add: removeItemFromVault_def step_defs)

theorem removeItemFromVault_outcomes_witness:
  "getItemVault mem_env world_open note_free = None \<and>
   removeItemFromVault mem_env note_free (service [] world_open) =
     (Inl (Error ''Item does not belong to any vault''), service [] world_open) \<and>
   getItemVault mem_env world_open note_in_work = Some vault_work \<and>
   isVaultLocked (service [(''u1'', True)] world_open) vault_work \<and>
   removeItemFromVault mem_env note_in_work (service [(''u1'', True)] world_open) =
     (Inl (Error ''Attempting to remove item from locked vault''),
      service [(''u1'', True)] world_open) \<and>
   fst (removeItemFromVault mem_env note_in_work (service [] world_open)) =
     Inr (note_in_work\<lparr>key_system_identifier := None\<rparr>) \<and>
   calls (snd (removeItemFromVault mem_env note_in_work (service [] world_open))) =
     [Call_RemoveItemFromVault note_in_work]"
  using removeItemFromVault_outcomes [of mem_env "service [] world_open" note_free]
    removeItemFromVault_outcomes [of mem_env "service [(''u1'', True)] world_open" note_in_work]
    removeItemFromVault_outcomes [of mem_env "service [] world_open" note_in_work]
  by (simp add: removeItemFromVault_def getItemVault_def getVault_def
      GetVaultUseCase_execute_def isVaultLocked_def set_key_system_identifier_def
      step_defs fixture_defs)

text \<open>
  C9, as stated: a vault whose key-system identifier has no entry in the lock map is not
  locked. The lock map is keyed by the uuid of the listing, not by its key-system
  identifier: for "Work" (uuid \<^verbatim>\<open>u1\<close>, key-system identifier \<^verbatim>\<open>k1\<close>) and the lock map
  \<^verbatim>\<open>{u1: true}\<close>, the identifier \<^verbatim>\<open>k1\<close> has no entry, yet the vault is locked and is
  among the locked vaults.
\<close>

theorem isVaultLocked_keyed_by_uuid_counterexample:
  "lockMap (service [(''u1'', True)] world_open) (systemIdentifier vault_work) = None \<and>
   isVaultLocked (service [(''u1'', True)] world_open) vault_work \<and>
   vault_work \<in> set (getLockedvaults mem_env (service [(''u1'', True)] world_open))"
  by (simp add: isVaultLocked_def getLockedvaults_def getVaults_def sort_array_def fixture_defs)

text \<open>
  C9, amended: for every vault whose listing uuid (the key of the lock map) has no entry
  in the lock map, \<^verbatim>\<open>isVaultLocked\<close> returns false, and the vault is not among the
  result of \<^verbatim>\<open>getLockedvaults\<close>.
\<close>

theorem isVaultLocked_absent_entry:
  "lockMap s (uuid v) = None \<Longrightarrow>
     \<not> isVaultLocked s v \<and> v \<notin> set (getLockedvaults env s)"
  by (simp add: isVaultLocked_def getLockedvaults_def)

theorem isVaultLocked_absent_entry_witness:
  "lockMap (service [] world_closed) (uuid vault_work) = None \<and>
   isVaultLocked (service [] world_closed) vault_work = False \<and>
   getLockedvaults mem_env (service [] world_closed) = []"
  using isVaultLocked_absent_entry [of "service [] world_closed" vault_work mem_env]
  by (simp add: isVaultLocked_def getLockedvaults_def getVaults_def sort_array_def fixture_defs)

text \<open>
  C10. \<^verbatim>\<open>rotateVaultRootKey\<close> takes its guard from the key store as it is at the call,
  not from the lock map: it raises "Cannot rotate root key of locked vault" if and only if
  the root key or the items key of the vault is absent from the key store, whatever the
  lock map holds, and when both keys are present and the use case and the sync complete
  it succeeds. \<^verbatim>\<open>addItemToVault\<close> and \<^verbatim>\<open>changeVaultOptions\<close> raise their own
  locked-vault errors if and only if the lock map holds true for the vault's uuid.
\<close>

theorem rotateVaultRootKey_guard_from_key_store:
  "(fst (rotateVaultRootKey env v s) = Inl (Error ''Cannot rotate root key of locked vault'')) =
     (keys_getPrimaryKeySystemRootKey env (world s) (systemIdentifier v) = None \<or>
      keys_getPrimaryKeySystemItemsKey env (world s) (systemIdentifier v) = None)
   \<and> (\<forall>w1 w2. computeVaultLockState env (world s) v = unlocked \<and>
        RotateVaultRootKeyUseCase_execute env v
          (if isSharedVaultListing v then sharing v else None) None (world s) = (Inr (), w1) \<and>
        sync_sync env w1 = (Inr (), w2) \<longrightarrow>
        rotateVaultRootKey env v s =
          (Inr (),
           s\<lparr>world := w2,
             events := events s @ [(VaultRootKeyRotated, v)],
             calls := calls s @
               [Call_RotateVaultRootKeyUseCase v
                  (if isSharedVaultListing v then sharing v else None) None,
                Call_sync]\<rparr>))
   \<and> (fst (addItemToVault env v item s) = Inl (Error ''Attempting to add item to locked vault'')) =
     (lockMap s (uuid v) = Some True)
   \<and> (fst (changeVaultOptions env dto s) =
        Inl (Error ''Attempting to change vault options on a locked vault'')) =
     (lockMap s (uuid (vault dto)) = Some True)"
proof -
  have "(computeVaultLockState env (world s) v = locked) =
     (keys_getPrimaryKeySystemRootKey env (world s) (systemIdentifier v) = None \<or>
      keys_getPrimaryKeySystemItemsKey env (world s) (systemIdentifier v) = None)"
    by (auto simp: computeVaultLockState_def split: option.splits)
  moreover have "\<forall>w1 w2. computeVaultLockState env (world s) v = unlocked \<and>
        RotateVaultRootKeyUseCase_execute env v
          (if isSharedVaultListing v then sharing v else None) None (world s) = (Inr (), w1) \<and>
        sync_sync env w1 = (Inr (), w2) \<longrightarrow>
        rotateVaultRootKey env v s =
          (Inr (),
           s\<lparr>world := w2,
             events := events s @ [(VaultRootKeyRotated, v)],
             calls := calls s @
               [Call_RotateVaultRootKeyUseCase v
                  (if isSharedVaultListing v then sharing v else None) None,
                Call_sync]\<rparr>)"
    by (simp add: rotateVaultRootKey_def step_defs Let_def)
  ultimately show ?thesis
    by (simp add: rotate_guard addItem_guard changeVaultOptions_guard isVaultLocked_def)
qed

theorem rotateVaultRootKey_guard_from_key_store_witness:
  "isVaultLocked (service [(''u1'', True)] world_open) vault_work \<and>
   fst (rotateVaultRootKey mem_env vault_work (service [(''u1'', True)] world_open)) = Inr () \<and>
   isVaultLocked (service [(''u1'', False)] world_closed) vault_work = False \<and>
   fst (rotateVaultRootKey mem_env vault_work (service [(''u1'', False)] world_closed)) =
     Inl (Error ''Cannot rotate root key of locked vault'') \<and>
   fst (addItemToVault mem_env vault_work note_free (service [(''u1'', True)] world_open)) =
     Inl (Error ''Attempting to add item to locked vault'') \<and>
   fst (changeVaultOptions mem_env
          \<lparr>vault = vault_work, newPasswordType = None, newStorageMode = None\<rparr>
          (service [(''u1'', True)] world_open)) =
     Inl (Error ''Attempting to change vault options on a locked vault'')"
  using rotateVaultRootKey_guard_from_key_store
      [of mem_env vault_work "service [(''u1'', True)] world_open" note_free
          "\<lparr>vault = vault_work, newPasswordType = None, newStorageMode = None\<rparr>"]
    rotateVaultRootKey_guard_from_key_store
      [of mem_env vault_work "service [(''u1'', False)] world_closed" note_free
          "\<lparr>vault = vault_work, newPasswordType = None, newStorageMode = None\<rparr>"]
  by (simp add: rotateVaultRootKey_def addItemToVault_def changeVaultOptions_def
      computeVaultLockState_def isVaultLocked_def isSharedVaultListing_def
      step_defs Let_def fixture_defs)

end
